theory Spec2Isabelle
  imports Main "HOL-Library.Sublist"
begin

section \<open>The Python values the script works with\<close>

text \<open>
  The script \<^verbatim>\<open>ip-dns-check.py\<close> handles text, optional text, booleans and small
  integers. Text is modelled as \<^typ>\<open>string\<close>, so the code points are the 8-bit ones;
  Python's integers are \<^typ>\<open>int\<close>.

  An exception is a value. Only the classes that the script's \<^verbatim>\<open>except\<close> clauses
  tell apart get a constructor of their own, every other subclass of \<^verbatim>\<open>Exception\<close> is
  \<open>OtherException\<close>; each carries the text that \<^verbatim>\<open>str(e)\<close> gives. Signals that are not
  subclasses of \<^verbatim>\<open>Exception\<close> (a keyboard interrupt) are outside the model, with the
  exception of \<^verbatim>\<open>SystemExit\<close>, which is the outcome \<open>Exits\<close>.
\<close>

datatype py_exception =
    NXDOMAIN string
  | NoAnswer string
  | Timeout string
  | Gaierror string
  | NameError string
  | OtherException string

text \<open>\<^verbatim>\<open>str(e)\<close>\<close>

fun str_exc :: "py_exception \<Rightarrow> string" where
  "str_exc (NXDOMAIN m) = m"
| "str_exc (NoAnswer m) = m"
| "str_exc (Timeout m) = m"
| "str_exc (Gaierror m) = m"
| "str_exc (NameError m) = m"
| "str_exc (OtherException m) = m"

text \<open>What a call does: it returns, it raises, or it leaves through \<^verbatim>\<open>sys.exit\<close>.\<close>

datatype 'a outcome = Returns 'a | Raises py_exception | Exits int

text \<open>
  \<^verbatim>\<open>dns_server\<close> and \<^verbatim>\<open>args.dns\<close> are \<^verbatim>\<open>None\<close> or a \<^verbatim>\<open>str\<close>. The script tests them
  with \<^verbatim>\<open>if dns_server\<close>, which is false for \<^verbatim>\<open>None\<close> and for the empty text.
  \<open>str_opt\<close> is the text an f-string puts for such a value.
\<close>

fun truthy :: "string option \<Rightarrow> bool" where
  "truthy None = False"
| "truthy (Some s) = (s \<noteq> [])"

fun str_opt :: "string option \<Rightarrow> string" where
  "str_opt None = ''None''"
| "str_opt (Some s) = s"

text \<open>The result of one lookup is the tuple \<^verbatim>\<open>(hostname, ip_address, success)\<close>.\<close>

type_synonym lookup_result = "string \<times> string \<times> bool"

definition hostname_of :: "lookup_result \<Rightarrow> string" where
  "hostname_of r = fst r"

definition resolved_value :: "lookup_result \<Rightarrow> string" where
  "resolved_value r = fst (snd r)"

definition success_of :: "lookup_result \<Rightarrow> bool" where
  "success_of r = snd (snd r)"


section \<open>What the script finds around it\<close>

text \<open>
  Everything the script asks of its surroundings is a field of the environment:
  \<^item> \<open>dns_available\<close>: the module constant \<^verbatim>\<open>DNS_AVAILABLE\<close>, true when
    \<^verbatim>\<open>import dns.resolver\<close> succeeded (lines 12 to 16). When the import failed the name
    \<^verbatim>\<open>dns\<close> is not bound in the module;
  \<^item> \<open>resolve_a\<close>: lines 33 to 35, a dnspython resolver made, given the one name
    server, and asked with \<^verbatim>\<open>resolver.resolve(hostname, 'A')\<close>; any of the three steps
    may raise, otherwise there are the answers, each as \<^verbatim>\<open>str\<close> gives it;
  \<^item> \<open>gethostbyname\<close>: \<^verbatim>\<open>socket.gethostbyname\<close>;
  \<^item> \<open>inet_aton_ok\<close>: whether \<^verbatim>\<open>socket.inet_aton\<close> returns rather than raising
    \<^verbatim>\<open>socket.error\<close>;
  \<^item> \<open>open_read\<close>: what opening a path for reading and reading it through gives: the
    text, \<^verbatim>\<open>FileNotFoundError\<close>, or any other exception, the last two with their message;
  \<^item> \<open>open_write\<close>: \<open>None\<close> when a path can be opened for writing and written, or the
    text of the exception;
  \<^item> \<open>now\<close>: \<^verbatim>\<open>datetime.now().strftime('%Y-%m-%d %H:%M:%S')\<close>.
\<close>

datatype open_result =
    Opened string
  | File_not_found string
  | Open_failed string

record environment =
  dns_available :: bool
  resolve_a :: "string \<Rightarrow> string \<Rightarrow> py_exception + string list"
  gethostbyname :: "string \<Rightarrow> py_exception + string"
  inet_aton_ok :: "string \<Rightarrow> bool"
  open_read :: "string \<Rightarrow> open_result"
  open_write :: "string \<Rightarrow> string option"
  now :: string


section \<open>\<^verbatim>\<open>perform_dns_lookup\<close> (lines 19 to 53)\<close>

text \<open>
  The body of the \<^verbatim>\<open>try\<close> statement, lines 31 to 43. \<open>Inl\<close> is an exception raised
  inside it. \<^verbatim>\<open>answers[0]\<close> on no answer at all raises \<^verbatim>\<open>IndexError\<close>.
\<close>

definition try_block :: "environment \<Rightarrow> string \<Rightarrow> string option \<Rightarrow> py_exception + lookup_result" where
  "try_block env hostname dns_server =
     (if truthy dns_server \<and> dns_available env then
        (case resolve_a env (str_opt dns_server) hostname of
           Inl e \<Rightarrow> Inl e
         | Inr answers \<Rightarrow>
             (case answers of
                [] \<Rightarrow> Inl (OtherException ''list index out of range'')
              | ip_address # _ \<Rightarrow> Inr (hostname, ip_address, True)))
      else if truthy dns_server \<and> \<not> dns_available env then
        Inr (hostname, ''Error: dnspython not installed (required for custom DNS)'', False)
      else
        (case gethostbyname env hostname of
           Inl e \<Rightarrow> Inl e
         | Inr ip_address \<Rightarrow> Inr (hostname, ip_address, True)))"

text \<open>
  The \<^verbatim>\<open>except\<close> clauses, lines 44 to 53, tried in order on an exception of the body.
  Python evaluates the expression of a clause when it tries the clause. The first
  clause names \<^verbatim>\<open>dns.resolver.NXDOMAIN\<close>: where the import of line 13 failed, \<^verbatim>\<open>dns\<close>
  is unbound, evaluating the expression raises \<^verbatim>\<open>NameError\<close>, and that exception
  leaves the function.
\<close>

definition except_clauses :: "environment \<Rightarrow> string \<Rightarrow> py_exception \<Rightarrow> lookup_result outcome" where
  "except_clauses env hostname e =
     (if \<not> dns_available env then Raises (NameError ''name 'dns' is not defined'')
      else
        (case e of
           NXDOMAIN m \<Rightarrow> Returns (hostname, ''Error: Domain does not exist'', False)
         | NoAnswer m \<Rightarrow> Returns (hostname, ''Error: No A record found'', False)
         | Timeout m \<Rightarrow> Returns (hostname, ''Error: DNS query timeout'', False)
         | Gaierror m \<Rightarrow> Returns (hostname, ''Error: '' @ m, False)
         | NameError m \<Rightarrow> Returns (hostname, ''Unexpected error: '' @ m, False)
         | OtherException m \<Rightarrow> Returns (hostname, ''Unexpected error: '' @ m, False)))"

definition perform_dns_lookup :: "environment \<Rightarrow> string \<Rightarrow> string option \<Rightarrow> lookup_result outcome" where
  "perform_dns_lookup env hostname dns_server =
     (case try_block env hostname dns_server of
        Inr r \<Rightarrow> Returns r
      | Inl e \<Rightarrow> except_clauses env hostname e)"


section \<open>Text helpers of the Python runtime\<close>

text \<open>
  \<^verbatim>\<open>str.isspace\<close> on the code points below 256: the controls 9 to 13 and 28 to 31, the
  space, NEL (133) and the no-break space (160). \<^verbatim>\<open>str.strip()\<close> removes such
  characters from both ends.
\<close>

definition isspace :: "char \<Rightarrow> bool" where
  "isspace c =
     (let n = (of_char c :: nat)
      in (9 \<le> n \<and> n \<le> 13) \<or> (28 \<le> n \<and> n \<le> 32) \<or> n = 133 \<or> n = 160)"

definition strip :: "string \<Rightarrow> string" where
  "strip s = rev (dropWhile isspace (rev (dropWhile isspace s)))"

text \<open>
  Iterating over a file opened in text mode gives its lines, each with the newline that
  ends it; the last line has none when the text does not end in one. The text is the
  decoded one, where every line ending already is a single newline.
\<close>

fun file_lines :: "string \<Rightarrow> string list" where
  "file_lines [] = []"
| "file_lines (c # cs) =
     (if c = CHR ''\<newline>'' then [c] # file_lines cs
      else (case file_lines cs of [] \<Rightarrow> [[c]] | l # ls \<Rightarrow> (c # l) # ls))"

text \<open>\<^verbatim>\<open>str\<close> of an integer: its decimal digits, after a minus sign when negative.\<close>

definition digit_char :: "nat \<Rightarrow> char" where
  "digit_char d = ''0123456789'' ! d"

fun digits :: "nat \<Rightarrow> string" where
  "digits n =
     (if n < 10 then [digit_char n]
      else digits (n div 10) @ [digit_char (n mod 10)])"

declare digits.simps [simp del]

definition str_int :: "int \<Rightarrow> string" where
  "str_int i = (if i < 0 then CHR ''-'' # digits (nat (- i)) else digits (nat i))"


section \<open>Console and files\<close>

text \<open>
  What the script leaves behind: the texts given to \<^verbatim>\<open>print\<close>, in order, for each of the
  two streams; the files written, as path and content; and the hostnames handed to
  \<^verbatim>\<open>perform_dns_lookup\<close> so far. A traceback that the interpreter prints for an uncaught
  exception is not part of \<open>stderr\<close>.
\<close>

record world =
  stdout :: "string list"
  stderr :: "string list"
  written :: "(string \<times> string) list"
  looked_up :: "string list"

definition start_world :: world where
  "start_world = \<lparr>stdout = [], stderr = [], written = [], looked_up = []\<rparr>"

definition print_out :: "string \<Rightarrow> world \<Rightarrow> world" where
  "print_out s w = w\<lparr>stdout := stdout w @ [s]\<rparr>"

definition print_err :: "string \<Rightarrow> world \<Rightarrow> world" where
  "print_err s w = w\<lparr>stderr := stderr w @ [s]\<rparr>"


section \<open>\<^verbatim>\<open>read_hostnames\<close> (lines 56 to 79)\<close>

definition read_hostnames :: "environment \<Rightarrow> world \<Rightarrow> string \<Rightarrow> world \<times> string list outcome" where
  "read_hostnames env w input_source =
     (case open_read env input_source of
        Opened content \<Rightarrow>
          (w, Returns (map strip (filter (\<lambda>line. strip line \<noteq> []) (file_lines content))))
      | File_not_found m \<Rightarrow> (w, Returns [input_source])
      | Open_failed m \<Rightarrow> (print_err (''Error reading input: '' @ m) w, Exits 1))"


section \<open>\<^verbatim>\<open>write_results\<close> (lines 82 to 121)\<close>

definition divider :: string where
  "divider = replicate 70 (CHR ''='')"

definition result_line :: "lookup_result \<Rightarrow> string" where
  "result_line r = hostname_of r @ '' / '' @ resolved_value r @ ''\<newline>''"

text \<open>\<^verbatim>\<open>sum(1 for _, _, success in results if success)\<close>\<close>

definition success_count :: "lookup_result list \<Rightarrow> int" where
  "success_count results = sum_list (map (\<lambda>r. 1) (filter success_of results))"

text \<open>The arguments of the calls of \<^verbatim>\<open>f.write\<close>, in order (lines 95 to 115).\<close>

definition report_writes :: "string \<Rightarrow> string option \<Rightarrow> lookup_result list \<Rightarrow> string list" where
  "report_writes timestamp dns_server results =
     [''DNS Lookup Results - '' @ timestamp @ ''\<newline>'',
      (if truthy dns_server then ''DNS Server: '' @ str_opt dns_server @ ''\<newline>''
       else ''DNS Server: System Default\<newline>''),
      divider @ ''\<newline>\<newline>'']
     @ map result_line results
     @ [''\<newline>'' @ divider @ ''\<newline>'',
        ''Total lookups: '' @ str_int (int (length results)) @ ''\<newline>'',
        ''Successful: '' @ str_int (success_count results) @ ''\<newline>'',
        ''Failed: '' @ str_int (int (length results) - success_count results) @ ''\<newline>'']"

text \<open>
  A failure to open or write the file is one event here, before anything is written:
  the handler of line 119 prints and exits with 1. With \<^verbatim>\<open>verbose\<close> each line is
  echoed, stripped, as it is written.
\<close>

definition write_results ::
  "environment \<Rightarrow> world \<Rightarrow> lookup_result list \<Rightarrow> string \<Rightarrow> bool \<Rightarrow> string option \<Rightarrow> world \<times> unit outcome" where
  "write_results env w results output_file verbose dns_server =
     (case open_write env output_file of
        Some m \<Rightarrow> (print_err (''Error writing to output file: '' @ m) w, Exits 1)
      | None \<Rightarrow>
          (print_out (''\<newline>Results written to: '' @ output_file)
             (w\<lparr>written := written w
                     @ [(output_file, concat (report_writes (now env) dns_server results))],
                 stdout := stdout w
                     @ (if verbose then map (\<lambda>r. strip (result_line r)) results else [])\<rparr>),
           Returns ()))"


section \<open>\<^verbatim>\<open>main\<close> (lines 124 to 203)\<close>

text \<open>
  The parsed arguments \<^verbatim>\<open>args.input\<close>, \<^verbatim>\<open>args.output\<close>, \<^verbatim>\<open>args.verbose\<close> and
  \<^verbatim>\<open>args.dns\<close>. \<^verbatim>\<open>argparse\<close> itself is not modelled: a command line it rejects
  never reaches the code below.
\<close>

record run_config =
  args_input :: string
  args_output :: string
  args_verbose :: bool
  args_dns :: "string option"

text \<open>Lines 164 to 175: the check of \<^verbatim>\<open>-d\<close>.\<close>

definition validate_dns :: "environment \<Rightarrow> world \<Rightarrow> string option \<Rightarrow> world \<times> unit outcome" where
  "validate_dns env w dns_arg =
     (if truthy dns_arg then
        (if \<not> inet_aton_ok env (str_opt dns_arg) then
           (print_err (''Error: Invalid DNS server IP address: '' @ str_opt dns_arg) w, Exits 1)
         else if \<not> dns_available env then
           (print_err (''Falling back to system DNS...\<newline>'')
              (print_err ''Install it with: pip install dnspython''
                 (print_err ''Warning: dnspython library not installed.'' w)),
            Returns ())
         else (w, Returns ()))
      else (w, Returns ()))"

text \<open>
  Lines 189 to 196: the loop over the hostnames. The marks of line 195 are the check mark
  U+2713 and the ballot cross U+2717, written here as their UTF-8 bytes. An exception
  that leaves \<^verbatim>\<open>perform_dns_lookup\<close> leaves the loop.
\<close>

definition check_mark :: string where
  "check_mark = [CHR 0xE2, CHR 0x9C, CHR 0x93]"

definition cross_mark :: string where
  "cross_mark = [CHR 0xE2, CHR 0x9C, CHR 0x97]"

fun lookup_loop ::
  "environment \<Rightarrow> string option \<Rightarrow> string list \<Rightarrow> world \<Rightarrow> lookup_result list
     \<Rightarrow> world \<times> lookup_result list outcome" where
  "lookup_loop env dns_arg [] w results = (w, Returns results)"
| "lookup_loop env dns_arg (hostname # rest) w results =
     (case perform_dns_lookup env hostname dns_arg of
        Returns result \<Rightarrow>
          lookup_loop env dns_arg rest
            (print_out ((if success_of result then check_mark else cross_mark) @ '' '' @ hostname)
               (w\<lparr>looked_up := looked_up w @ [hostname]\<rparr>))
            (results @ [result])
      | Raises e \<Rightarrow> (w\<lparr>looked_up := looked_up w @ [hostname]\<rparr>, Raises e)
      | Exits n \<Rightarrow> (w\<lparr>looked_up := looked_up w @ [hostname]\<rparr>, Exits n))"

text \<open>Lines 162 to 196: everything up to the end of the lookups.\<close>

definition lookup_phase :: "environment \<Rightarrow> run_config \<Rightarrow> world \<times> lookup_result list outcome" where
  "lookup_phase env args =
     (case validate_dns env start_world (args_dns args) of
        (w1, Raises e) \<Rightarrow> (w1, Raises e)
      | (w1, Exits n) \<Rightarrow> (w1, Exits n)
      | (w1, Returns _) \<Rightarrow>
          (case read_hostnames env (print_out (''Reading hostnames from: '' @ args_input args) w1)
                  (args_input args) of
             (w2, Raises e) \<Rightarrow> (w2, Raises e)
           | (w2, Exits n) \<Rightarrow> (w2, Exits n)
           | (w2, Returns hostnames) \<Rightarrow>
               (if hostnames = [] then (print_err ''No hostnames found to lookup'' w2, Exits 1)
                else
                  lookup_loop env (args_dns args) hostnames
                    (print_out
                       (''Performing DNS lookups for '' @ str_int (int (length hostnames))
                          @ '' hostname(s)''
                          @ (if truthy (args_dns args) then '' using DNS server '' @ str_opt (args_dns args)
                             else [])
                          @ ''...\<newline>'')
                       w2)
                    [])))"

text \<open>\<^verbatim>\<open>sum(1 for _, _, success in results if not success)\<close>\<close>

definition failed_count :: "lookup_result list \<Rightarrow> int" where
  "failed_count results = sum_list (map (\<lambda>r. 1) (filter (\<lambda>r. \<not> success_of r) results))"

definition main :: "environment \<Rightarrow> run_config \<Rightarrow> world \<times> unit outcome" where
  "main env args =
     (case lookup_phase env args of
        (w, Raises e) \<Rightarrow> (w, Raises e)
      | (w, Exits n) \<Rightarrow> (w, Exits n)
      | (w, Returns results) \<Rightarrow>
          (case write_results env w results (args_output args) (args_verbose args) (args_dns args) of
             (w', Raises e) \<Rightarrow> (w', Raises e)
           | (w', Exits n) \<Rightarrow> (w', Exits n)
           | (w', Returns _) \<Rightarrow> (w', Exits (if failed_count results = 0 then 0 else 1))))"

text \<open>
  The exit code of the process: the argument of \<^verbatim>\<open>sys.exit\<close>, or 1 when an exception
  reaches the top.
\<close>

fun exit_code :: "'a outcome \<Rightarrow> int" where
  "exit_code (Exits n) = n"
| "exit_code (Raises e) = 1"
| "exit_code (Returns v) = 0"


section \<open>Notions of the specification\<close>

text \<open>A blank line has nothing but white space on it.\<close>

definition blank :: "string \<Rightarrow> bool" where
  "blank s = list_all isspace s"

text \<open>
  The lines of a text as a reader of the report sees them: cut at every newline, the
  newline left out.
\<close>

fun text_lines :: "string \<Rightarrow> string list" where
  "text_lines [] = []"
| "text_lines (c # cs) =
     (if c = CHR ''\<newline>'' then [] # text_lines cs
      else (case text_lines cs of [] \<Rightarrow> [[c]] | l # ls \<Rightarrow> (c # l) # ls))"

definition one_line :: "string \<Rightarrow> bool" where
  "one_line s = (CHR ''\<newline>'' \<notin> set s)"


text \<open>
  An address as the resolvers give it: digits and dots. The script takes the text of a
  successful lookup from the resolver as it is, so what that text looks like is a
  property of the resolver.
\<close>

definition address_text :: "string \<Rightarrow> bool" where
  "address_text s = (s \<noteq> [] \<and> list_all (\<lambda>c. c \<in> set ''0123456789.'') s)"

definition resolvers_give_addresses :: "environment \<Rightarrow> bool" where
  "resolvers_give_addresses env =
     ((\<forall>server host answers.
          resolve_a env server host = Inr answers \<longrightarrow> list_all address_text answers)
      \<and> (\<forall>host ip. gethostbyname env host = Inr ip \<longrightarrow> address_text ip))"

text \<open>
  The report as the specification lays it out, line by line: the title with the time,
  the DNS server or \<^verbatim>\<open>System Default\<close>, a divider of 70 equals signs, an empty line, one
  line \<^verbatim>\<open><hostname> / <resolvedValue>\<close> for each result, an empty line, the divider, and
  the three counts: the number of results, the number of successful ones and their
  difference.
\<close>

definition spec_report_lines :: "string \<Rightarrow> string option \<Rightarrow> lookup_result list \<Rightarrow> string list" where
  "spec_report_lines timestamp dns_server results =
     (let n = int (length results); k = int (length (filter success_of results))
      in [''DNS Lookup Results - '' @ timestamp,
          ''DNS Server: '' @ (case dns_server of
                                None \<Rightarrow> ''System Default''
                              | Some s \<Rightarrow> if s = [] then ''System Default'' else s),
          replicate 70 (CHR ''=''),
          []]
         @ map (\<lambda>r. hostname_of r @ '' / '' @ resolved_value r) results
         @ [[],
            replicate 70 (CHR ''=''),
            ''Total lookups: '' @ str_int n,
            ''Successful: '' @ str_int k,
            ''Failed: '' @ str_int (n - k)])"

text \<open>
  A syntactically valid IPv4 address, as the specification asks of the \<^verbatim>\<open>-d\<close> value:
  four decimal numbers, none above 255, with dots between them. \<open>dotted_quad\<close> is the
  form alone: four parts, each one or more digits and written without a leading zero.
\<close>

definition is_digit :: "char \<Rightarrow> bool" where
  "is_digit c = (c \<in> set ''0123456789'')"

fun split_dots :: "string \<Rightarrow> string list" where
  "split_dots [] = [[]]"
| "split_dots (c # cs) =
     (if c = CHR ''.'' then [] # split_dots cs
      else (case split_dots cs of [] \<Rightarrow> [[c]] | p # ps \<Rightarrow> (c # p) # ps))"

definition decimal_value :: "string \<Rightarrow> nat" where
  "decimal_value p = fold (\<lambda>c n. 10 * n + (of_char c - 48)) p 0"

definition decimal_part :: "string \<Rightarrow> bool" where
  "decimal_part p = (p \<noteq> [] \<and> list_all is_digit p \<and> (p = ''0'' \<or> hd p \<noteq> CHR ''0''))"

definition dotted_quad :: "string \<Rightarrow> bool" where
  "dotted_quad s = (length (split_dots s) = 4 \<and> list_all decimal_part (split_dots s))"

definition valid_ipv4 :: "string \<Rightarrow> bool" where
  "valid_ipv4 s = (dotted_quad s \<and> list_all (\<lambda>p. decimal_value p \<le> 255) (split_dots s))"


definition query_raises_no_gaierror :: "environment \<Rightarrow> string \<Rightarrow> string \<Rightarrow> bool" where
  "query_raises_no_gaierror env server hostname =
     (\<forall>m. resolve_a env server hostname \<noteq> Inl (Gaierror m))"

text \<open>The three lines of the warning of lines 173 to 175.\<close>

definition warnings :: "string list" where
  "warnings =
     [''Warning: dnspython library not installed.'',
      ''Install it with: pip install dnspython'',
      ''Falling back to system DNS...\<newline>'']"


section \<open>Sample surroundings\<close>

text \<open>
  A machine with dnspython installed, one name that resolves, one file of hostnames, one
  file of blank lines, one file that cannot be read and one path that cannot be written;
  and the same machine without dnspython. \<open>sample_files\<close> are the files there are on
  it. A name of more than 255 characters cannot be opened, nor can a path that goes
  through a plain file: for these \<^verbatim>\<open>open\<close> raises an \<^verbatim>\<open>OSError\<close> that is no
  \<^verbatim>\<open>FileNotFoundError\<close>.
\<close>

definition sample_files :: "string list" where
  "sample_files = [''hostnames.txt'', ''blank.txt'', ''locked.txt'']"

definition sample_env :: environment where
  "sample_env =
     \<lparr>dns_available = True,
      resolve_a = (\<lambda>server host.
         if host = ''example.com'' then Inr [''93.184.216.34'', ''93.184.216.35'']
         else if host = ''slow.example.com'' then Inl (Timeout ''The DNS operation timed out.'')
         else if host = ''mail.example.com'' then Inl (NoAnswer ''No answer'')
         else if host = ''broken.example.com'' then Inl (OtherException ''All nameservers failed'')
         else Inl (NXDOMAIN ''The DNS query name does not exist'')),
      gethostbyname = (\<lambda>host.
         if host = ''example.com'' then Inr ''93.184.216.34''
         else Inl (Gaierror ''[Errno -2] Name or service not known'')),
      inet_aton_ok = valid_ipv4,
      open_read = (\<lambda>path.
         if 255 < length path then Open_failed ''[Errno 36] File name too long''
         else if path = ''hostnames.txt''
           then Opened ''example.com\<newline>\<newline>  nosuch.invalid \<newline>localhost''
         else if path = ''blank.txt'' then Opened ''\<newline>   \<newline>''
         else if path = ''locked.txt'' then Open_failed ''[Errno 13] Permission denied''
         else if path = ''hostnames.txt/x'' then Open_failed ''[Errno 20] Not a directory''
         else File_not_found ''[Errno 2] No such file or directory''),
      open_write = (\<lambda>path.
         if path = ''/results.txt'' then Some ''[Errno 13] Permission denied'' else None),
      now = ''2024-05-01 12:00:00''\<rparr>"

definition sample_env_no_dnspython :: environment where
  "sample_env_no_dnspython = sample_env\<lparr>dns_available := False\<rparr>"


definition sample_results :: "lookup_result list" where
  "sample_results =
     [(''example.com'', ''93.184.216.34'', True),
      (''nosuch.invalid'', ''Error: [Errno -2] Name or service not known'', False)]"

text \<open>Command lines: a name, a file of names, and the variations of \<^verbatim>\<open>-d\<close> and \<^verbatim>\<open>-i\<close>.\<close>

definition sample_args :: run_config where
  "sample_args =
     \<lparr>args_input = ''example.com'', args_output = ''out.txt'',
      args_verbose = False, args_dns = None\<rparr>"

definition sample_args_file :: run_config where
  "sample_args_file =
     \<lparr>args_input = ''hostnames.txt'', args_output = ''out.txt'',
      args_verbose = False, args_dns = None\<rparr>"




definition sample_args_blank_file :: run_config where
  "sample_args_blank_file =
     \<lparr>args_input = ''blank.txt'', args_output = ''out.txt'',
      args_verbose = False, args_dns = None\<rparr>"

definition sample_args_long_blank :: run_config where
  "sample_args_long_blank =
     \<lparr>args_input = replicate 300 (CHR '' ''), args_output = ''out.txt'',
      args_verbose = False, args_dns = None\<rparr>"

definition sample_args_spaces :: run_config where
  "sample_args_spaces =
     \<lparr>args_input = ''   '', args_output = ''out.txt'',
      args_verbose = False, args_dns = None\<rparr>"


section \<open>Properties of \<^verbatim>\<open>perform_dns_lookup\<close>\<close>

lemmas lookup_defs = perform_dns_lookup_def try_block_def except_clauses_def

lemmas sample_defs = sample_env_def sample_env_no_dnspython_def

lemma lookup_with_dnspython_returns:
  "dns_available env \<Longrightarrow>
     \<exists>v s. perform_dns_lookup env hostname dns_server = Returns (hostname, v, s)"
  by (auto simp: lookup_defs split: sum.splits list.splits py_exception.splits)

lemma lookup_custom_returns:
  "truthy dns_server \<Longrightarrow>
     \<exists>v s. perform_dns_lookup env hostname dns_server = Returns (hostname, v, s)"
  by (auto simp: lookup_defs split: sum.splits list.splits py_exception.splits)

lemma lookup_never_exits: "perform_dns_lookup env hostname dns_server \<noteq> Exits n"
  by (auto simp: lookup_defs split: sum.splits list.splits py_exception.splits)

lemma lookup_returns_hostname:
  "perform_dns_lookup env hostname dns_server = Returns r \<Longrightarrow> fst r = hostname"
  by (auto simp: lookup_defs split: sum.splits list.splits py_exception.splits if_splits)

lemma failed_value_prefix:
  "perform_dns_lookup env hostname dns_server = Returns r \<Longrightarrow> \<not> success_of r \<Longrightarrow>
     prefix ''Error: '' (resolved_value r) \<or> prefix ''Unexpected error: '' (resolved_value r)"
  by (auto simp: lookup_defs success_of_def resolved_value_def
      split: sum.splits list.splits py_exception.splits if_splits)

lemma address_text_no_error_prefix:
  "address_text s \<Longrightarrow> \<not> prefix ''Error: '' s \<and> \<not> prefix ''Unexpected error: '' s"
  by (cases s) (auto simp: address_text_def)

lemma success_value_address:
  "resolvers_give_addresses env \<Longrightarrow> perform_dns_lookup env hostname dns_server = Returns r \<Longrightarrow>
     success_of r \<Longrightarrow> address_text (resolved_value r)"
  by (fastforce simp: lookup_defs success_of_def resolved_value_def resolvers_give_addresses_def
      split: sum.splits list.splits py_exception.splits if_splits)

lemma sample_env_gives_addresses: "resolvers_give_addresses sample_env"
  by (auto simp: resolvers_give_addresses_def sample_defs address_text_def split: if_splits)

text \<open>
  C1. The claim: \<^verbatim>\<open>perform_dns_lookup\<close> never lets an exception reach its caller, in
  particular when dnspython is missing and the system resolver raises. The code does not
  keep to it: without dnspython, for a name the system resolver does not know and no DNS
  server given, the first \<^verbatim>\<open>except\<close> clause cannot be evaluated and a \<^verbatim>\<open>NameError\<close>
  leaves the function.
\<close>

theorem lookup_raises_name_error_without_dnspython:
  "dns_available sample_env_no_dnspython = False
   \<and> gethostbyname sample_env_no_dnspython ''nosuch.invalid''
       = Inl (Gaierror ''[Errno -2] Name or service not known'')
   \<and> perform_dns_lookup sample_env_no_dnspython ''nosuch.invalid'' None
       = Raises (NameError ''name 'dns' is not defined'')"
  by (simp add: lookup_defs sample_defs)

text \<open>
  What the handlers of lines 44 to 53 make of each outcome of the query, a
  \<^verbatim>\<open>socket.gaierror\<close> included: the clause of line 50 comes before the last one.
\<close>

lemma custom_dns_outcomes:
  assumes "truthy dns_server" and "dns_available env"
  shows "perform_dns_lookup env hostname dns_server =
     (case resolve_a env (str_opt dns_server) hostname of
        Inr (ip_address # rest) \<Rightarrow> Returns (hostname, ip_address, True)
      | Inr [] \<Rightarrow> Returns (hostname, ''Unexpected error: list index out of range'', False)
      | Inl (NXDOMAIN m) \<Rightarrow> Returns (hostname, ''Error: Domain does not exist'', False)
      | Inl (NoAnswer m) \<Rightarrow> Returns (hostname, ''Error: No A record found'', False)
      | Inl (Timeout m) \<Rightarrow> Returns (hostname, ''Error: DNS query timeout'', False)
      | Inl (Gaierror m) \<Rightarrow> Returns (hostname, ''Error: '' @ m, False)
      | Inl (NameError m) \<Rightarrow> Returns (hostname, ''Unexpected error: '' @ m, False)
      | Inl (OtherException m) \<Rightarrow> Returns (hostname, ''Unexpected error: '' @ m, False))"
  using assms by (simp add: lookup_defs split: sum.splits list.splits py_exception.splits)

text \<open>
  C3. With a DNS server given and dnspython there, the outcome of the query decides the
  result: the first answer, with success true; the three fixed messages for NXDOMAIN, no
  answer and timeout; and \<^verbatim>\<open>Unexpected error: <message>\<close> for any other exception, an
  empty answer included; all of these with success false. The query of lines 33 to 35
  is taken to raise no \<^verbatim>\<open>socket.gaierror\<close>, as is the case for dnspython asked at a
  server given by its address.
\<close>

theorem custom_dns_classification:
  assumes "truthy dns_server" and "dns_available env"
    and "query_raises_no_gaierror env (str_opt dns_server) hostname"
  shows "perform_dns_lookup env hostname dns_server =
     (case resolve_a env (str_opt dns_server) hostname of
        Inr (ip_address # rest) \<Rightarrow> Returns (hostname, ip_address, True)
      | Inr [] \<Rightarrow> Returns (hostname, ''Unexpected error: list index out of range'', False)
      | Inl (NXDOMAIN m) \<Rightarrow> Returns (hostname, ''Error: Domain does not exist'', False)
      | Inl (NoAnswer m) \<Rightarrow> Returns (hostname, ''Error: No A record found'', False)
      | Inl (Timeout m) \<Rightarrow> Returns (hostname, ''Error: DNS query timeout'', False)
      | Inl e \<Rightarrow> Returns (hostname, ''Unexpected error: '' @ str_exc e, False))"
  using assms
  by (auto simp: lookup_defs query_raises_no_gaierror_def
      split: sum.splits list.splits py_exception.splits)

text \<open>
  An answer, a timeout, a missing name and a failure of all name servers, asked at
  8.8.8.8.
\<close>

theorem custom_dns_classification_witness:
  "truthy (Some ''8.8.8.8'') \<and> dns_available sample_env
   \<and> query_raises_no_gaierror sample_env ''8.8.8.8'' ''example.com''
   \<and> perform_dns_lookup sample_env ''example.com'' (Some ''8.8.8.8'')
       = Returns (''example.com'', ''93.184.216.34'', True)
   \<and> query_raises_no_gaierror sample_env ''8.8.8.8'' ''slow.example.com''
   \<and> perform_dns_lookup sample_env ''slow.example.com'' (Some ''8.8.8.8'')
       = Returns (''slow.example.com'', ''Error: DNS query timeout'', False)
   \<and> query_raises_no_gaierror sample_env ''8.8.8.8'' ''nosuch.invalid''
   \<and> perform_dns_lookup sample_env ''nosuch.invalid'' (Some ''8.8.8.8'')
       = Returns (''nosuch.invalid'', ''Error: Domain does not exist'', False)
   \<and> query_raises_no_gaierror sample_env ''8.8.8.8'' ''broken.example.com''
   \<and> perform_dns_lookup sample_env ''broken.example.com'' (Some ''8.8.8.8'')
       = Returns (''broken.example.com'', ''Unexpected error: All nameservers failed'', False)"
proof -
  have a: "truthy (Some ''8.8.8.8'')" by simp
  have b: "dns_available sample_env" by (simp add: sample_defs)
  have g: "query_raises_no_gaierror sample_env (str_opt (Some ''8.8.8.8'')) h" for h
    by (simp add: query_raises_no_gaierror_def sample_defs)
  have c: "perform_dns_lookup sample_env ''example.com'' (Some ''8.8.8.8'')
       = Returns (''example.com'', ''93.184.216.34'', True)"
    using custom_dns_classification [OF a b g, of "''example.com''"] by (simp add: sample_defs)
  have d: "perform_dns_lookup sample_env ''slow.example.com'' (Some ''8.8.8.8'')
       = Returns (''slow.example.com'', ''Error: DNS query timeout'', False)"
    using custom_dns_classification [OF a b g, of "''slow.example.com''"]
    by (simp add: sample_defs)
  have e: "perform_dns_lookup sample_env ''nosuch.invalid'' (Some ''8.8.8.8'')
       = Returns (''nosuch.invalid'', ''Error: Domain does not exist'', False)"
    using custom_dns_classification [OF a b g, of "''nosuch.invalid''"]
    by (simp add: sample_defs)
  have f: "perform_dns_lookup sample_env ''broken.example.com'' (Some ''8.8.8.8'')
       = Returns (''broken.example.com'', ''Unexpected error: All nameservers failed'', False)"
    using custom_dns_classification [OF a b g, of "''broken.example.com''"]
    by (simp add: sample_defs)
  from g have g': "query_raises_no_gaierror sample_env ''8.8.8.8'' h" for h by simp
  from a b c d e f g' show ?thesis by blast
qed

text \<open>
  C5. A DNS server was asked for (the test \<^verbatim>\<open>dns_server\<close> of line 38 holds) and
  dnspython is missing: the lookup fails with the fixed message, whatever the system
  resolver would have said.
\<close>

theorem custom_dns_without_dnspython:
  assumes "truthy dns_server" and "\<not> dns_available env"
  shows "perform_dns_lookup env hostname dns_server
     = Returns (hostname, ''Error: dnspython not installed (required for custom DNS)'', False)"
  using assms by (simp add: lookup_defs)

theorem custom_dns_without_dnspython_witness:
  "truthy (Some ''8.8.8.8'') \<and> \<not> dns_available sample_env_no_dnspython
   \<and> gethostbyname sample_env_no_dnspython ''example.com'' = Inr ''93.184.216.34''
   \<and> perform_dns_lookup sample_env_no_dnspython ''example.com'' (Some ''8.8.8.8'')
     = Returns (''example.com'', ''Error: dnspython not installed (required for custom DNS)'', False)"
proof -
  have a: "truthy (Some ''8.8.8.8'')" by simp
  have b: "\<not> dns_available sample_env_no_dnspython" by (simp add: sample_defs)
  have c: "gethostbyname sample_env_no_dnspython ''example.com'' = Inr ''93.184.216.34''"
    by (simp add: sample_defs)
  from a b c custom_dns_without_dnspython [OF a b, of "''example.com''"] show ?thesis by blast
qed

text \<open>
  C8. Whatever triple \<^verbatim>\<open>perform_dns_lookup\<close> returns has the hostname it was given as
  its first component; and it does return one whenever dnspython is there or a DNS server
  was given.
\<close>

theorem lookup_keeps_hostname:
  "(\<forall>r. perform_dns_lookup env hostname dns_server = Returns r \<longrightarrow> hostname_of r = hostname)
   \<and> (dns_available env \<or> truthy dns_server
        \<longrightarrow> (\<exists>r. perform_dns_lookup env hostname dns_server = Returns r))"
  using lookup_returns_hostname lookup_with_dnspython_returns lookup_custom_returns
  by (metis hostname_of_def)

theorem lookup_keeps_hostname_witness:
  "\<exists>r. perform_dns_lookup sample_env ''nosuch.invalid'' None = Returns r
       \<and> hostname_of r = ''nosuch.invalid''"
proof -
  have a: "dns_available sample_env \<or> truthy None" by (simp add: sample_defs)
  from a lookup_keeps_hostname [of sample_env "''nosuch.invalid''" None] show ?thesis by blast
qed

text \<open>
  C10. The text of a failed result starts with \<^verbatim>\<open>Error: \<close> or with
  \<^verbatim>\<open>Unexpected error: \<close>. The text of a successful one is what the resolver gave, so
  with resolvers that give addresses it starts with neither.
\<close>

theorem failed_results_are_marked:
  assumes "perform_dns_lookup env hostname dns_server = Returns r"
  shows "(\<not> success_of r \<longrightarrow>
            prefix ''Error: '' (resolved_value r)
            \<or> prefix ''Unexpected error: '' (resolved_value r))
       \<and> (resolvers_give_addresses env \<and> success_of r \<longrightarrow>
            \<not> prefix ''Error: '' (resolved_value r)
            \<and> \<not> prefix ''Unexpected error: '' (resolved_value r))"
  using assms failed_value_prefix success_value_address address_text_no_error_prefix by blast

theorem failed_results_are_marked_witness:
  "perform_dns_lookup sample_env ''nosuch.invalid'' None
     = Returns (''nosuch.invalid'', ''Error: [Errno -2] Name or service not known'', False)
   \<and> prefix ''Error: '' ''Error: [Errno -2] Name or service not known''
   \<and> perform_dns_lookup sample_env ''example.com'' None
     = Returns (''example.com'', ''93.184.216.34'', True)
   \<and> \<not> prefix ''Error: '' ''93.184.216.34''
   \<and> \<not> prefix ''Unexpected error: '' ''93.184.216.34''"
proof -
  have a: "perform_dns_lookup sample_env ''nosuch.invalid'' None
     = Returns (''nosuch.invalid'', ''Error: [Errno -2] Name or service not known'', False)"
    by (simp add: lookup_defs sample_defs)
  have b: "perform_dns_lookup sample_env ''example.com'' None
     = Returns (''example.com'', ''93.184.216.34'', True)"
    by (simp add: lookup_defs sample_defs)
  have c: "\<not> prefix ''Unexpected error: '' ''Error: [Errno -2] Name or service not known''"
    by simp
  from failed_results_are_marked [OF a] c
  have d: "prefix ''Error: '' ''Error: [Errno -2] Name or service not known''"
    by (simp add: success_of_def resolved_value_def)
  from failed_results_are_marked [OF b] sample_env_gives_addresses
  have e: "\<not> prefix ''Error: '' ''93.184.216.34'' \<and> \<not> prefix ''Unexpected error: '' ''93.184.216.34''"
    by (simp add: success_of_def resolved_value_def)
  from a b d e show ?thesis by blast
qed


section \<open>Properties of the text helpers\<close>

lemma strip_empty_iff: "strip s = [] \<longleftrightarrow> blank s"
proof -
  have "strip s = [] \<longleftrightarrow> dropWhile isspace (rev (dropWhile isspace s)) = []"
    by (simp add: strip_def)
  also have "\<dots> \<longleftrightarrow> (\<forall>c\<in>set (dropWhile isspace s). isspace c)"
    by (simp add: dropWhile_eq_Nil_conv)
  also have "\<dots> \<longleftrightarrow> dropWhile isspace s = []"
  proof
    assume a: "\<forall>c\<in>set (dropWhile isspace s). isspace c"
    show "dropWhile isspace s = []"
    proof (rule ccontr)
      assume n: "dropWhile isspace s \<noteq> []"
      then have "\<not> isspace (hd (dropWhile isspace s))" by (rule hd_dropWhile)
      moreover from n have "hd (dropWhile isspace s) \<in> set (dropWhile isspace s)" by simp
      ultimately show False using a by blast
    qed
  next
    assume e: "dropWhile isspace s = []"
    show "\<forall>c\<in>set (dropWhile isspace s). isspace c" unfolding e by simp
  qed
  also have "\<dots> \<longleftrightarrow> blank s"
    by (simp add: dropWhile_eq_Nil_conv blank_def list_all_iff)
  finally show ?thesis .
qed

lemma last_dropWhile: "dropWhile P xs \<noteq> [] \<Longrightarrow> last (dropWhile P xs) = last xs"
  by (induction xs) (auto split: if_splits)

lemma strip_ends:
  assumes "strip s \<noteq> []"
  shows "\<not> isspace (hd (strip s)) \<and> \<not> isspace (last (strip s))"
proof -
  let ?t = "dropWhile isspace s"
  let ?u = "dropWhile isspace (rev ?t)"
  from assms have u: "?u \<noteq> []" by (simp add: strip_def)
  have t: "?t \<noteq> []"
  proof
    assume e: "?t = []"
    show False using u unfolding e by simp
  qed
  have "last (strip s) = hd ?u" using u by (simp add: strip_def last_rev)
  moreover have "\<not> isspace (hd ?u)" using u by (rule hd_dropWhile)
  moreover have "hd (strip s) = last ?u" using u by (simp add: strip_def hd_rev)
  moreover have "last ?u = last (rev ?t)" using u by (rule last_dropWhile)
  moreover have "last (rev ?t) = hd ?t" using t by (simp add: last_rev)
  moreover have "\<not> isspace (hd ?t)" using t by (rule hd_dropWhile)
  ultimately show ?thesis by simp
qed

lemma strip_decomposition:
  "\<exists>a b. s = a @ strip s @ b \<and> blank a \<and> blank b"
proof -
  let ?t = "dropWhile isspace s"
  let ?a = "takeWhile isspace s"
  let ?b = "rev (takeWhile isspace (rev ?t))"
  have "strip s @ ?b = rev (takeWhile isspace (rev ?t) @ dropWhile isspace (rev ?t))"
    by (simp only: strip_def rev_append)
  also have "\<dots> = rev (rev ?t)" by (simp only: takeWhile_dropWhile_id)
  also have "\<dots> = ?t" by (simp only: rev_rev_ident)
  finally have "?t = strip s @ ?b" by (rule sym)
  moreover have "s = ?a @ ?t" by simp
  ultimately have "s = ?a @ strip s @ ?b" by simp
  moreover have "blank ?a" by (simp add: blank_def list_all_iff) (meson set_takeWhileD)
  moreover have "blank ?b" by (simp add: blank_def list_all_iff) (meson set_takeWhileD)
  ultimately show ?thesis by blast
qed

lemma concat_file_lines: "concat (file_lines s) = s"
  by (induction s) (auto split: list.splits)

lemma read_hostnames_opened:
  "open_read env input_source = Opened content \<Longrightarrow>
     read_hostnames env w input_source
       = (w, Returns (map strip (filter (\<lambda>line. \<not> blank line) (file_lines content))))"
  by (simp add: read_hostnames_def strip_empty_iff)

lemma digit_not_newline: "n < 10 \<Longrightarrow> digit_char n \<noteq> CHR ''\<newline>''"
proof -
  assume "n < 10"
  then have "digit_char n \<in> set ''0123456789''"
    unfolding digit_char_def by (intro nth_mem) simp
  then show ?thesis by auto
qed

lemma one_line_digits: "one_line (digits n)"
proof (induction n rule: digits.induct)
  case (1 n)
  show ?case
  proof (cases "n < 10")
    case True
    then show ?thesis using digit_not_newline [OF True]
      by (subst digits.simps) (simp add: one_line_def)
  next
    case False
    have "n mod 10 < 10" by simp
    from digit_not_newline [OF this] 1 [OF False] False show ?thesis
      by (subst digits.simps) (simp add: one_line_def)
  qed
qed

lemma one_line_str_int: "one_line (str_int i)"
  using one_line_digits by (simp add: str_int_def one_line_def)

lemma one_line_simps [simp]:
  "one_line []"
  "one_line (c # s) \<longleftrightarrow> c \<noteq> CHR ''\<newline>'' \<and> one_line s"
  "one_line (a @ b) \<longleftrightarrow> one_line a \<and> one_line b"
  "one_line (replicate n (CHR ''=''))"
  by (auto simp: one_line_def)

lemma text_lines_line:
  "one_line a \<Longrightarrow> text_lines (a @ CHR ''\<newline>'' # rest) = a # text_lines rest"
  by (induction a) (auto simp: one_line_def)

lemma text_lines_concat:
  "\<forall>l\<in>set ls. one_line l \<Longrightarrow>
     text_lines (concat (map (\<lambda>l. l @ ''\<newline>'') ls) @ rest) = ls @ text_lines rest"
  by (induction ls) (simp_all add: text_lines_line)

lemma str_int_small: "str_int 0 = ''0''" "str_int 1 = ''1''" "str_int 2 = ''2''" "str_int 3 = ''3''"
  by (simp_all add: str_int_def digits.simps digit_char_def)


section \<open>Properties of \<^verbatim>\<open>read_hostnames\<close>\<close>

lemma read_hostnames_outcome:
  "snd (read_hostnames env w src) = snd (read_hostnames env w' src)"
  by (simp add: read_hostnames_def split: open_result.splits)


section \<open>Properties of \<^verbatim>\<open>write_results\<close>\<close>

lemma sum_ones: "sum_list (map (\<lambda>r. 1::int) xs) = int (length xs)"
  by (induction xs) simp_all

lemma failed_count_zero_iff: "failed_count results = 0 \<longleftrightarrow> (\<forall>r\<in>set results. success_of r)"
  by (simp add: failed_count_def sum_ones filter_empty_conv)

lemma success_count_length: "success_count results = int (length (filter success_of results))"
  by (simp add: success_count_def sum_ones)

lemma print_out_fields [simp]:
  "stdout (print_out s w) = stdout w @ [s]"
  "stderr (print_out s w) = stderr w"
  "written (print_out s w) = written w"
  "looked_up (print_out s w) = looked_up w"
  by (simp_all add: print_out_def)

lemma print_err_fields [simp]:
  "stdout (print_err s w) = stdout w"
  "stderr (print_err s w) = stderr w @ [s]"
  "written (print_err s w) = written w"
  "looked_up (print_err s w) = looked_up w"
  by (simp_all add: print_err_def)


lemma write_results_stderr:
  "stderr (fst (write_results env w rs out v d)) =
     (case open_write env out of None \<Rightarrow> stderr w
      | Some m \<Rightarrow> stderr w @ [''Error writing to output file: '' @ m])"
  by (simp add: write_results_def print_out_def print_err_def split: option.splits)

lemma report_writes_lines:
  "concat (report_writes timestamp dns_server results)
     = concat (map (\<lambda>l. l @ ''\<newline>'') (spec_report_lines timestamp dns_server results))"
proof -
  have b: "concat (map result_line results)
      = concat (map (\<lambda>l. l @ ''\<newline>'') (map (\<lambda>r. hostname_of r @ '' / '' @ resolved_value r) results))"
    by (simp add: comp_def result_line_def [abs_def])
  have d: "(if truthy dns_server then ''DNS Server: '' @ str_opt dns_server @ ''\<newline>''
       else ''DNS Server: System Default\<newline>'')
     = (''DNS Server: '' @ (case dns_server of None \<Rightarrow> ''System Default''
                              | Some s \<Rightarrow> if s = [] then ''System Default'' else s)) @ ''\<newline>''"
    by (cases dns_server) simp_all
  show ?thesis
    unfolding report_writes_def spec_report_lines_def Let_def success_count_length
    by (simp only: concat_append map_append concat.simps list.map b d append_assoc append_Nil
        append_Nil2 divider_def) simp
qed

lemma spec_report_lines_one_line:
  assumes "one_line timestamp" and "one_line (str_opt dns_server)"
    and "\<forall>r\<in>set results. one_line (hostname_of r) \<and> one_line (resolved_value r)"
  shows "\<forall>l\<in>set (spec_report_lines timestamp dns_server results). one_line l"
proof -
  have s: "one_line (case dns_server of None \<Rightarrow> ''System Default''
                              | Some s \<Rightarrow> if s = [] then ''System Default'' else s)"
    using assms(2) by (cases dns_server) simp_all
  show ?thesis using assms(1,3) s one_line_str_int
    by (auto simp: spec_report_lines_def Let_def)
qed

text \<open>
  C7. When the output file can be written, the report is, line for line, the layout of
  the specification: the header with the DNS server used or \<^verbatim>\<open>System Default\<close>, one
  line \<^verbatim>\<open><hostname> / <resolvedValue>\<close> for each result in the order of the list, then
  an empty line, the divider of 70 equals signs and the counts, where the total is the
  length of the list, the successful count is the number of results with success true,
  and the failed count, their difference, is the number of the other results. The lines
  read back from the file are these lines as long as no hostname, value, time or server
  has a newline in it.
\<close>

theorem report_layout:
  assumes "open_write env output_file = None"
  shows "\<exists>w' content.
      write_results env w results output_file verbose dns_server = (w', Returns ())
    \<and> written w' = written w @ [(output_file, content)]
    \<and> content = concat (map (\<lambda>l. l @ ''\<newline>'') (spec_report_lines (now env) dns_server results))
    \<and> (one_line (now env) \<and> one_line (str_opt dns_server)
         \<and> (\<forall>r\<in>set results. one_line (hostname_of r) \<and> one_line (resolved_value r))
       \<longrightarrow> text_lines content = spec_report_lines (now env) dns_server results)
    \<and> int (length results) - int (length (filter success_of results))
        = int (length (filter (\<lambda>r. \<not> success_of r) results))"
proof -
  let ?L = "spec_report_lines (now env) dns_server results"
  let ?c = "concat (map (\<lambda>l. l @ ''\<newline>'') ?L)"
  let ?w = "print_out (''\<newline>Results written to: '' @ output_file)
             (w\<lparr>written := written w @ [(output_file, ?c)],
                 stdout := stdout w
                     @ (if verbose then map (\<lambda>r. strip (result_line r)) results else [])\<rparr>)"
  have a: "write_results env w results output_file verbose dns_server = (?w, Returns ())"
    using assms by (simp add: write_results_def report_writes_lines)
  have b: "written ?w = written w @ [(output_file, ?c)]" by simp
  have c: "text_lines ?c = ?L"
    if "one_line (now env) \<and> one_line (str_opt dns_server)
         \<and> (\<forall>r\<in>set results. one_line (hostname_of r) \<and> one_line (resolved_value r))"
  proof -
    from that have "\<forall>l\<in>set ?L. one_line l" using spec_report_lines_one_line by blast
    from text_lines_concat [OF this, of "[]"] show ?thesis by simp
  qed
  have d: "int (length results) - int (length (filter success_of results))
        = int (length (filter (\<lambda>r. \<not> success_of r) results))"
    using sum_length_filter_compl [of success_of results] by simp
  from a b c d show ?thesis by blast
qed

text \<open>
  The report of two results, one of them failed, read back line by line.
\<close>

theorem report_layout_witness:
  "open_write sample_env ''out.txt'' = None
   \<and> (\<exists>w'. write_results sample_env start_world sample_results ''out.txt'' False None = (w', Returns ())
      \<and> map (\<lambda>(p, c). (p, text_lines c)) (written w') =
         [(''out.txt'',
           [''DNS Lookup Results - 2024-05-01 12:00:00'',
            ''DNS Server: System Default'',
            ''======================================================================'',
            '''',
            ''example.com / 93.184.216.34'',
            ''nosuch.invalid / Error: [Errno -2] Name or service not known'',
            '''',
            ''======================================================================'',
            ''Total lookups: 2'',
            ''Successful: 1'',
            ''Failed: 1''])])"
proof -
  have a: "open_write sample_env ''out.txt'' = None" by (simp add: sample_env_def)
  have h: "one_line (now sample_env) \<and> one_line (str_opt None)
         \<and> (\<forall>r\<in>set sample_results. one_line (hostname_of r) \<and> one_line (resolved_value r))"
    by (simp add: sample_env_def sample_results_def hostname_of_def resolved_value_def)
  have l: "spec_report_lines (now sample_env) None sample_results =
           [''DNS Lookup Results - 2024-05-01 12:00:00'',
            ''DNS Server: System Default'',
            ''======================================================================'',
            '''',
            ''example.com / 93.184.216.34'',
            ''nosuch.invalid / Error: [Errno -2] Name or service not known'',
            '''',
            ''======================================================================'',
            ''Total lookups: 2'',
            ''Successful: 1'',
            ''Failed: 1'']"
    by (simp add: spec_report_lines_def sample_env_def sample_results_def hostname_of_def
        resolved_value_def success_of_def str_int_small eval_nat_numeral)
  from report_layout [OF a, of start_world sample_results False None] h l
  obtain w' content where
    "write_results sample_env start_world sample_results ''out.txt'' False None = (w', Returns ())"
    "written w' = written start_world @ [(''out.txt'', content)]"
    "text_lines content = [''DNS Lookup Results - 2024-05-01 12:00:00'',
            ''DNS Server: System Default'',
            ''======================================================================'',
            '''',
            ''example.com / 93.184.216.34'',
            ''nosuch.invalid / Error: [Errno -2] Name or service not known'',
            '''',
            ''======================================================================'',
            ''Total lookups: 2'',
            ''Successful: 1'',
            ''Failed: 1'']"
    by auto
  then show ?thesis using a by (simp add: start_world_def)
qed


section \<open>Properties of \<^verbatim>\<open>main\<close>\<close>

lemma lookup_loop_keeps:
  "stderr (fst (lookup_loop env d hs w rs)) = stderr w
   \<and> written (fst (lookup_loop env d hs w rs)) = written w
   \<and> prefix (stdout w) (stdout (fst (lookup_loop env d hs w rs)))"
proof (induction hs arbitrary: w rs)
  case Nil
  show ?case by simp
next
  case (Cons h hs)
  show ?case
  proof (cases "perform_dns_lookup env h d")
    case (Returns r)
    let ?w = "print_out ((if success_of r then check_mark else cross_mark) @ '' '' @ h)
               (w\<lparr>looked_up := looked_up w @ [h]\<rparr>)"
    let ?l = "lookup_loop env d hs ?w (rs @ [r])"
    have a: "prefix (stdout w) (stdout ?w)" by simp
    have b: "stderr ?w = stderr w" and c: "written ?w = written w" by simp_all
    have e: "lookup_loop env d (h # hs) w rs = ?l"
      using Returns by simp
    from Cons.IH [of ?w "rs @ [r]"]
    have i: "stderr (fst ?l) = stderr ?w" and j: "written (fst ?l) = written ?w"
      and k: "prefix (stdout ?w) (stdout (fst ?l))"
      by blast+
    from i b have "stderr (fst ?l) = stderr w" by (rule trans)
    moreover from j c have "written (fst ?l) = written w" by (rule trans)
    moreover from a k have "prefix (stdout w) (stdout (fst ?l))" by (rule prefix_order.trans)
    ultimately show ?thesis unfolding e by blast
  qed simp_all
qed

lemma lookup_loop_results:
  "lookup_loop env d hs w rs = (w', Returns out) \<Longrightarrow>
     map Returns out = map Returns rs @ map (\<lambda>h. perform_dns_lookup env h d) hs"
proof (induction hs arbitrary: w rs)
  case Nil
  then show ?case by simp
next
  case (Cons h hs)
  then show ?case by (cases "perform_dns_lookup env h d") auto
qed

lemma lookup_loop_returns:
  "dns_available env \<or> truthy d \<Longrightarrow> \<exists>w' out. lookup_loop env d hs w rs = (w', Returns out)"
proof (induction hs arbitrary: w rs)
  case Nil
  show ?case by simp
next
  case (Cons h hs)
  from Cons.prems obtain v s where "perform_dns_lookup env h d = Returns (h, v, s)"
    using lookup_with_dnspython_returns lookup_custom_returns by blast
  then show ?case using Cons.IH [OF Cons.prems] by simp
qed

lemma main_world:
  "stdout (fst (main env args)) =
     (case lookup_phase env args of
        (w, Returns rs) \<Rightarrow> stdout (fst (write_results env w rs (args_output args) (args_verbose args) (args_dns args)))
      | (w, _) \<Rightarrow> stdout w)"
  "stderr (fst (main env args)) =
     (case lookup_phase env args of
        (w, Returns rs) \<Rightarrow> stderr (fst (write_results env w rs (args_output args) (args_verbose args) (args_dns args)))
      | (w, _) \<Rightarrow> stderr w)"
  by (auto simp: main_def split: prod.splits outcome.splits)


lemma main_stderr:
  "stderr (fst (main env args)) = stderr (fst (lookup_phase env args))
   \<or> (\<exists>m. stderr (fst (main env args))
        = stderr (fst (lookup_phase env args)) @ [''Error writing to output file: '' @ m])"
  by (auto simp: main_world write_results_stderr split: prod.splits outcome.splits option.splits)

lemma lookup_phase_invalid:
  "truthy (args_dns args) \<Longrightarrow> \<not> inet_aton_ok env (str_opt (args_dns args)) \<Longrightarrow>
     lookup_phase env args
       = (\<lparr>stdout = [], stderr = [''Error: Invalid DNS server IP address: '' @ str_opt (args_dns args)],
           written = [], looked_up = []\<rparr>, Exits 1)"
  by (simp add: lookup_phase_def validate_dns_def print_err_def start_world_def)

lemma validate_dns_passes:
  "\<not> truthy d \<or> inet_aton_ok env (str_opt d) \<Longrightarrow>
     \<exists>w1. validate_dns env start_world d = (w1, Returns ())
        \<and> stdout w1 = [] \<and> written w1 = [] \<and> looked_up w1 = []
        \<and> (stderr w1 = [] \<or> stderr w1 = warnings)"
  by (auto simp: validate_dns_def print_err_def start_world_def warnings_def)


lemma lookup_phase_stderr:
  assumes "\<not> truthy (args_dns args) \<or> inet_aton_ok env (str_opt (args_dns args))"
  shows "\<exists>pre. (pre = [] \<or> pre = warnings) \<and>
     stderr (fst (lookup_phase env args)) =
       (case open_read env (args_input args) of
          Opened content \<Rightarrow>
            if list_all blank (file_lines content) then pre @ [''No hostnames found to lookup''] else pre
        | File_not_found m \<Rightarrow> pre
        | Open_failed m \<Rightarrow> pre @ [''Error reading input: '' @ m])"
proof -
  obtain w1 where v: "validate_dns env start_world (args_dns args) = (w1, Returns ())"
    and s: "stderr w1 = [] \<or> stderr w1 = warnings"
    using validate_dns_passes [OF assms] by blast
  let ?w = "print_out (''Reading hostnames from: '' @ args_input args) w1"
  have l: "stderr (fst (lookup_loop env d hs (print_out x ?w) rs)) = stderr w1" for d hs x rs
    by (simp add: lookup_loop_keeps print_out_def)
  have e: "filter (\<lambda>line. strip line \<noteq> []) ls = [] \<longleftrightarrow> list_all blank ls" for ls
    by (simp add: filter_empty_conv strip_empty_iff list_all_iff)
  have "stderr (fst (lookup_phase env args)) =
       (case open_read env (args_input args) of
          Opened content \<Rightarrow>
            if list_all blank (file_lines content) then stderr w1 @ [''No hostnames found to lookup''] else stderr w1
        | File_not_found m \<Rightarrow> stderr w1
        | Open_failed m \<Rightarrow> stderr w1 @ [''Error reading input: '' @ m])"
    using v l e
    by (simp add: lookup_phase_def read_hostnames_def split: open_result.splits
        del: lookup_loop.simps)
  with s show ?thesis by blast
qed

lemma lookup_phase_results:
  assumes "lookup_phase env args = (w, Returns results)"
  shows "\<exists>hostnames. hostnames \<noteq> []
      \<and> snd (read_hostnames env start_world (args_input args)) = Returns hostnames
      \<and> map Returns results = map (\<lambda>h. perform_dns_lookup env h (args_dns args)) hostnames"
proof -
  obtain w1 o1 where v: "validate_dns env start_world (args_dns args) = (w1, o1)"
    by (cases "validate_dns env start_world (args_dns args)")
  let ?w = "print_out (''Reading hostnames from: '' @ args_input args) w1"
  obtain w2 o2 where r: "read_hostnames env ?w (args_input args) = (w2, o2)"
    by (cases "read_hostnames env ?w (args_input args)")
  from assms v r obtain hs w3 where o: "o2 = Returns hs" "hs \<noteq> []"
    and l: "lookup_loop env (args_dns args) hs w3 [] = (w, Returns results)"
    by (auto simp: lookup_phase_def split: outcome.splits if_splits simp del: lookup_loop.simps)
  from r o have "snd (read_hostnames env start_world (args_input args)) = Returns hs"
    using read_hostnames_outcome [of env start_world "args_input args" ?w] by simp
  moreover from lookup_loop_results [OF l]
  have "map Returns results = map (\<lambda>h. perform_dns_lookup env h (args_dns args)) hs" by simp
  ultimately show ?thesis using o by blast
qed

text \<open>
  C2. When the lookups are through with the list \<open>results\<close> and the report can be
  written, \<^verbatim>\<open>main\<close> leaves with exit code 0 if every result has success true and with 1
  otherwise; the results are the lookups of the hostnames read, in order.
\<close>

theorem exit_code_reflects_failures:
  assumes "lookup_phase env args = (w, Returns results)"
    and "open_write env (args_output args) = None"
  shows "snd (main env args) = Exits (if (\<forall>r\<in>set results. success_of r) then 0 else 1)
       \<and> (exit_code (snd (main env args)) = 0 \<longleftrightarrow> (\<forall>r\<in>set results. success_of r))
       \<and> (\<exists>hostnames. hostnames \<noteq> []
             \<and> snd (read_hostnames env start_world (args_input args)) = Returns hostnames
             \<and> map Returns results
                 = map (\<lambda>h. perform_dns_lookup env h (args_dns args)) hostnames)"
proof -
  have "snd (main env args) = Exits (if failed_count results = 0 then 0 else 1)"
    using assms by (simp add: main_def write_results_def)
  then have a: "snd (main env args) = Exits (if (\<forall>r\<in>set results. success_of r) then 0 else 1)"
    by (simp only: failed_count_zero_iff)
  then have b: "exit_code (snd (main env args)) = 0 \<longleftrightarrow> (\<forall>r\<in>set results. success_of r)"
    by simp
  from a b lookup_phase_results [OF assms(1)] show ?thesis by blast
qed

lemma sample_lookup_phase:
  "snd (lookup_phase sample_env sample_args) = Returns [(''example.com'', ''93.184.216.34'', True)]"
  "snd (lookup_phase sample_env sample_args_file)
     = Returns [(''example.com'', ''93.184.216.34'', True),
         (''nosuch.invalid'', ''Error: [Errno -2] Name or service not known'', False),
         (''localhost'', ''Error: [Errno -2] Name or service not known'', False)]"
  by (simp_all add: lookup_phase_def validate_dns_def read_hostnames_def sample_env_def
      sample_args_def sample_args_file_def lookup_defs strip_def isspace_def)

text \<open>
  One name that resolves gives exit code 0; a file with one name that resolves and two
  that do not gives 1.
\<close>

theorem exit_code_reflects_failures_witness:
  "open_write sample_env (args_output sample_args) = None
   \<and> snd (lookup_phase sample_env sample_args) = Returns [(''example.com'', ''93.184.216.34'', True)]
   \<and> snd (main sample_env sample_args) = Exits 0
   \<and> snd (lookup_phase sample_env sample_args_file)
     = Returns [(''example.com'', ''93.184.216.34'', True),
         (''nosuch.invalid'', ''Error: [Errno -2] Name or service not known'', False),
         (''localhost'', ''Error: [Errno -2] Name or service not known'', False)]
   \<and> snd (main sample_env sample_args_file) = Exits 1"
proof -
  let ?a = "sample_args_file"
  have o: "open_write sample_env (args_output sample_args) = None"
    "open_write sample_env (args_output ?a) = None"
    by (simp_all add: sample_env_def sample_args_def sample_args_file_def)
  have p: "lookup_phase sample_env sample_args
      = (fst (lookup_phase sample_env sample_args), Returns [(''example.com'', ''93.184.216.34'', True)])"
    using sample_lookup_phase(1) by (metis prod.collapse)
  have q: "lookup_phase sample_env ?a
      = (fst (lookup_phase sample_env ?a), Returns [(''example.com'', ''93.184.216.34'', True),
         (''nosuch.invalid'', ''Error: [Errno -2] Name or service not known'', False),
         (''localhost'', ''Error: [Errno -2] Name or service not known'', False)])"
    using sample_lookup_phase(2) by (metis prod.collapse)
  have x: "snd (main sample_env sample_args) = Exits 0"
    using exit_code_reflects_failures [OF p o(1)] by (simp add: success_of_def)
  have y: "snd (main sample_env ?a) = Exits 1"
    using exit_code_reflects_failures [OF q o(2)] by (simp add: success_of_def)
  from o(1) sample_lookup_phase x y show ?thesis by blast
qed

lemma main_open_failed:
  assumes "open_read env (args_input args) = Open_failed m"
  shows "snd (main env args) = Exits 1"
  using assms
  by (simp add: main_def lookup_phase_def validate_dns_def read_hostnames_def)

text \<open>
  C4. \<^verbatim>\<open>read_hostnames\<close> on a file that opens returns the lines that are not blank,
  each stripped, in the order of the file: a returned hostname is never empty and neither
  starts nor ends with white space, and stripping a line takes away white space at its
  two ends and nothing else. When the file is not found it returns the input itself as
  the only hostname. On any other failure it prints the error and exits with 1, which
  is then the exit code of the process.
\<close>

theorem read_hostnames_behaviour:
  "(\<forall>content. open_read env input_source = Opened content \<longrightarrow>
       (\<exists>hostnames. read_hostnames env w input_source = (w, Returns hostnames)
          \<and> hostnames = map strip (filter (\<lambda>line. \<not> blank line) (file_lines content))
          \<and> (\<forall>h\<in>set hostnames. h \<noteq> [] \<and> \<not> isspace (hd h) \<and> \<not> isspace (last h))
          \<and> concat (file_lines content) = content))
   \<and> (\<forall>line. \<exists>a b. line = a @ strip line @ b \<and> blank a \<and> blank b)
   \<and> (\<forall>m. open_read env input_source = File_not_found m \<longrightarrow>
          read_hostnames env w input_source = (w, Returns [input_source]))
   \<and> (\<forall>m. open_read env input_source = Open_failed m \<longrightarrow>
          read_hostnames env w input_source
            = (w\<lparr>stderr := stderr w @ [''Error reading input: '' @ m]\<rparr>, Exits 1))
   \<and> (\<forall>m. open_read env (args_input args) = Open_failed m \<longrightarrow>
          exit_code (snd (main env args)) = 1)"
proof -
  have a: "\<exists>hostnames. read_hostnames env w input_source = (w, Returns hostnames)
          \<and> hostnames = map strip (filter (\<lambda>line. \<not> blank line) (file_lines content))
          \<and> (\<forall>h\<in>set hostnames. h \<noteq> [] \<and> \<not> isspace (hd h) \<and> \<not> isspace (last h))
          \<and> concat (file_lines content) = content"
    if "open_read env input_source = Opened content" for content
  proof -
    let ?hs = "map strip (filter (\<lambda>line. \<not> blank line) (file_lines content))"
    have "\<forall>h\<in>set ?hs. h \<noteq> [] \<and> \<not> isspace (hd h) \<and> \<not> isspace (last h)"
      using strip_ends strip_empty_iff by auto
    with read_hostnames_opened [OF that] concat_file_lines show ?thesis by blast
  qed
  have b: "read_hostnames env w input_source = (w, Returns [input_source])"
    if "open_read env input_source = File_not_found m" for m
    using that by (simp add: read_hostnames_def)
  have c: "read_hostnames env w input_source
            = (w\<lparr>stderr := stderr w @ [''Error reading input: '' @ m]\<rparr>, Exits 1)"
    if "open_read env input_source = Open_failed m" for m
    using that by (simp add: read_hostnames_def print_err_def)
  have d: "exit_code (snd (main env args)) = 1"
    if "open_read env (args_input args) = Open_failed m" for m
    using main_open_failed [OF that] by simp
  from a b c d strip_decomposition show ?thesis by blast
qed

text \<open>
  A file of three names and one blank line gives the three names in order; a name that
  is no file gives itself; a file that cannot be read ends the run.
\<close>

theorem read_hostnames_behaviour_witness:
  "open_read sample_env ''hostnames.txt''
       = Opened ''example.com\<newline>\<newline>  nosuch.invalid \<newline>localhost''
   \<and> read_hostnames sample_env start_world ''hostnames.txt''
       = (start_world, Returns [''example.com'', ''nosuch.invalid'', ''localhost''])
   \<and> open_read sample_env ''example.com'' = File_not_found ''[Errno 2] No such file or directory''
   \<and> read_hostnames sample_env start_world ''example.com''
       = (start_world, Returns [''example.com''])
   \<and> open_read sample_env ''locked.txt'' = Open_failed ''[Errno 13] Permission denied''
   \<and> snd (read_hostnames sample_env start_world ''locked.txt'') = Exits 1"
proof -
  have a: "open_read sample_env ''hostnames.txt''
       = Opened ''example.com\<newline>\<newline>  nosuch.invalid \<newline>localhost''"
    by (simp add: sample_env_def)
  have b: "open_read sample_env ''example.com'' = File_not_found ''[Errno 2] No such file or directory''"
    by (simp add: sample_env_def)
  have c: "open_read sample_env ''locked.txt'' = Open_failed ''[Errno 13] Permission denied''"
    by (simp add: sample_env_def)
  have e: "map strip (filter (\<lambda>line. \<not> blank line)
              (file_lines ''example.com\<newline>\<newline>  nosuch.invalid \<newline>localhost''))
       = [''example.com'', ''nosuch.invalid'', ''localhost'']"
    by (simp add: blank_def strip_def isspace_def)
  have x: "read_hostnames sample_env start_world ''hostnames.txt''
       = (start_world, Returns [''example.com'', ''nosuch.invalid'', ''localhost''])"
    using read_hostnames_behaviour [of sample_env "''hostnames.txt''" start_world] a e by auto
  have y: "read_hostnames sample_env start_world ''example.com''
       = (start_world, Returns [''example.com''])"
    using read_hostnames_behaviour [of sample_env "''example.com''" start_world] b by blast
  have z: "snd (read_hostnames sample_env start_world ''locked.txt'') = Exits 1"
    using read_hostnames_behaviour [of sample_env "''locked.txt''" start_world] c by simp
  from a b c x y z show ?thesis by blast
qed


lemma no_hostnames_message_differs:
  "''No hostnames found to lookup'' \<notin> set warnings"
  "''No hostnames found to lookup'' \<noteq> ''Error: Invalid DNS server IP address: '' @ s"
  "''No hostnames found to lookup'' \<noteq> ''Error reading input: '' @ m"
  "''No hostnames found to lookup'' \<noteq> ''Error writing to output file: '' @ m"
  by (simp_all add: warnings_def)















lemma lookup_phase_no_hostnames:
  assumes "\<not> truthy (args_dns args) \<or> inet_aton_ok env (str_opt (args_dns args))"
    and "open_read env (args_input args) = Opened content"
    and "list_all blank (file_lines content)"
  shows "snd (lookup_phase env args) = Exits 1"
proof -
  obtain w1 where v: "validate_dns env start_world (args_dns args) = (w1, Returns ())"
    using validate_dns_passes [OF assms(1)] by blast
  have e: "filter (\<lambda>line. strip line \<noteq> []) (file_lines content) = []"
    using assms(3) by (simp add: filter_empty_conv strip_empty_iff list_all_iff)
  show ?thesis using v e assms(2)
    by (simp add: lookup_phase_def read_hostnames_def)
qed

text \<open>
  C9, as the code has it. When opening the input raises \<^verbatim>\<open>FileNotFoundError\<close>,
  \<^verbatim>\<open>read_hostnames\<close> returns the input itself, untouched, as the only hostname. The run
  prints \<^verbatim>\<open>No hostnames found to lookup\<close> exactly when the \<^verbatim>\<open>-d\<close> check lets it pass
  and the input is a file that opens and has nothing but blank lines (or no line at all);
  it then exits with 1. So an input for which \<^verbatim>\<open>open\<close> raises \<^verbatim>\<open>FileNotFoundError\<close>,
  be it empty or white space only, never takes this exit.
\<close>

theorem empty_list_exit_needs_blank_file:
  "(\<forall>m. open_read env input_source = File_not_found m \<longrightarrow>
        read_hostnames env w input_source = (w, Returns [input_source]))
   \<and> (''No hostnames found to lookup'' \<in> set (stderr (fst (main env args)))
        \<longleftrightarrow> (\<not> truthy (args_dns args) \<or> inet_aton_ok env (str_opt (args_dns args)))
            \<and> (\<exists>content. open_read env (args_input args) = Opened content
                  \<and> list_all blank (file_lines content)))
   \<and> (''No hostnames found to lookup'' \<in> set (stderr (fst (main env args)))
        \<longrightarrow> snd (main env args) = Exits 1)"
proof -
  let ?msg = "''No hostnames found to lookup''"
  let ?ok = "\<not> truthy (args_dns args) \<or> inet_aton_ok env (str_opt (args_dns args))"
  let ?blank = "\<exists>content. open_read env (args_input args) = Opened content
                  \<and> list_all blank (file_lines content)"
  have a: "read_hostnames env w input_source = (w, Returns [input_source])"
    if "open_read env input_source = File_not_found m" for m
    using that by (simp add: read_hostnames_def)
  have m: "?msg \<in> set (stderr (fst (main env args)))
       \<longleftrightarrow> ?msg \<in> set (stderr (fst (lookup_phase env args)))"
    using main_stderr [of env args] no_hostnames_message_differs(4)
    by (auto simp del: append.simps)
  have b: "?msg \<in> set (stderr (fst (lookup_phase env args))) \<longleftrightarrow> ?ok \<and> ?blank"
  proof (cases ?ok)
    case False
    then have "stderr (fst (lookup_phase env args))
        = [''Error: Invalid DNS server IP address: '' @ str_opt (args_dns args)]"
      using lookup_phase_invalid [of args env] by simp
    then show ?thesis using False no_hostnames_message_differs(2) by (simp del: append.simps)
  next
    case True
    from lookup_phase_stderr [OF True] obtain pre where pre: "pre = [] \<or> pre = warnings"
      and s: "stderr (fst (lookup_phase env args)) =
       (case open_read env (args_input args) of
          Opened content \<Rightarrow>
            if list_all blank (file_lines content) then pre @ [''No hostnames found to lookup''] else pre
        | File_not_found m \<Rightarrow> pre
        | Open_failed m \<Rightarrow> pre @ [''Error reading input: '' @ m])" by blast
    from pre have q: "?msg \<notin> set pre" using no_hostnames_message_differs(1) by auto
    show ?thesis unfolding s using q True no_hostnames_message_differs(3)
      by (cases "open_read env (args_input args)") (simp_all del: append.simps)
  qed
  have c: "snd (main env args) = Exits 1" if "?msg \<in> set (stderr (fst (main env args)))"
  proof -
    from that m b obtain content where "?ok" "open_read env (args_input args) = Opened content"
      "list_all blank (file_lines content)" by blast
    from lookup_phase_no_hostnames [OF this] show ?thesis
      by (cases "lookup_phase env args") (simp add: main_def)
  qed
  from a m b c show ?thesis by blast
qed

text \<open>
  An input of three spaces that is no file is looked up as it is; a file of blank lines
  takes the exit.
\<close>

theorem empty_list_exit_needs_blank_file_witness:
  "open_read sample_env ''   '' = File_not_found ''[Errno 2] No such file or directory''
   \<and> read_hostnames sample_env start_world ''   '' = (start_world, Returns [''   ''])
   \<and> ''No hostnames found to lookup'' \<notin> set (stderr (fst (main sample_env sample_args_spaces)))
   \<and> open_read sample_env ''blank.txt'' = Opened ''\<newline>   \<newline>''
   \<and> ''No hostnames found to lookup'' \<in> set (stderr (fst (main sample_env sample_args_blank_file)))
   \<and> snd (main sample_env sample_args_blank_file) = Exits 1"
proof -
  have a: "open_read sample_env ''   '' = File_not_found ''[Errno 2] No such file or directory''"
    by (simp add: sample_env_def)
  have b: "read_hostnames sample_env start_world ''   '' = (start_world, Returns [''   ''])"
    using empty_list_exit_needs_blank_file [of sample_env "''   ''" start_world] a by blast
  have c: "''No hostnames found to lookup'' \<notin> set (stderr (fst (main sample_env sample_args_spaces)))"
    using empty_list_exit_needs_blank_file [of sample_env "''   ''" start_world sample_args_spaces] a
    by (simp add: sample_args_spaces_def)
  have d: "open_read sample_env ''blank.txt'' = Opened ''\<newline>   \<newline>''"
    by (simp add: sample_env_def)
  have e: "list_all blank (file_lines ''\<newline>   \<newline>'')"
    by (simp add: blank_def isspace_def)
  have f: "''No hostnames found to lookup'' \<in> set (stderr (fst (main sample_env sample_args_blank_file)))"
    using empty_list_exit_needs_blank_file [of sample_env "''   ''" start_world sample_args_blank_file] d e
    by (simp add: sample_args_blank_file_def)
  have g: "snd (main sample_env sample_args_blank_file) = Exits 1"
    using empty_list_exit_needs_blank_file [of sample_env "''   ''" start_world sample_args_blank_file] f
    by blast
  from a b c d f g show ?thesis by blast
qed

text \<open>
  C9, as the claim has it, fails: an input can name no file and yet not be returned as a
  hostname. A name of 300 blanks is none of the files there are, and so is a path that
  goes through the plain file \<^verbatim>\<open>hostnames.txt\<close>; for both \<^verbatim>\<open>open\<close> raises an error other
  than \<^verbatim>\<open>FileNotFoundError\<close>, and the handler of lines 75 to 77 ends the run with exit
  code 1.
\<close>

theorem missing_file_can_end_the_run:
  "replicate 300 (CHR '' '') \<notin> set sample_files
   \<and> blank (replicate 300 (CHR '' ''))
   \<and> open_read sample_env (replicate 300 (CHR '' ''))
       = Open_failed ''[Errno 36] File name too long''
   \<and> snd (read_hostnames sample_env start_world (replicate 300 (CHR '' ''))) = Exits 1
   \<and> snd (read_hostnames sample_env start_world (replicate 300 (CHR '' '')))
       \<noteq> Returns [replicate 300 (CHR '' '')]
   \<and> snd (main sample_env sample_args_long_blank) = Exits 1
   \<and> ''hostnames.txt/x'' \<notin> set sample_files
   \<and> open_read sample_env ''hostnames.txt/x'' = Open_failed ''[Errno 20] Not a directory''
   \<and> snd (read_hostnames sample_env start_world ''hostnames.txt/x'') = Exits 1"
proof -
  let ?n = "replicate 300 (CHR '' '')"
  have a: "?n \<notin> set sample_files"
    by (auto simp: sample_files_def dest: arg_cong [where f = length])
  have b: "blank ?n" by (simp add: blank_def list_all_iff isspace_def)
  have c: "open_read sample_env ?n = Open_failed ''[Errno 36] File name too long''"
    by (simp add: sample_env_def)
  have d: "snd (read_hostnames sample_env start_world ?n) = Exits 1"
    using c by (simp add: read_hostnames_def)
  then have e: "snd (read_hostnames sample_env start_world ?n) \<noteq> Returns [?n]" by simp
  have f: "snd (main sample_env sample_args_long_blank) = Exits 1"
    using c main_open_failed [of sample_env sample_args_long_blank]
    by (simp add: sample_args_long_blank_def)
  have g: "''hostnames.txt/x'' \<notin> set sample_files" by (simp add: sample_files_def)
  have h: "open_read sample_env ''hostnames.txt/x'' = Open_failed ''[Errno 20] Not a directory''"
    by (simp add: sample_env_def)
  have i: "snd (read_hostnames sample_env start_world ''hostnames.txt/x'') = Exits 1"
    using h by (simp add: read_hostnames_def)
  from a b c d e f g h i show ?thesis by blast
qed

end
